theory Spec2Isabelle
  imports Main "HOL-Library.AList" "HOL-Library.Sublist"
begin

section \<open>Python values, exceptions and dictionaries\<close>

text \<open>
  The script stores in its dictionaries what Selenium hands back: an attribute read
  (\<^verbatim>\<open>get_attribute\<close>) is a string or \<^verbatim>\<open>None\<close>, an element text is a string.
\<close>

datatype pyval = PyNone | Str string

datatype exn =
    NoSuchElementException
  | InvalidArgumentException
  | WebDriverException
  | IndexError
  | KeyError
  | AttributeError
  | ValueError

text \<open>\<^verbatim>\<open>str(v)\<close> and the truth value of \<^verbatim>\<open>v\<close>.\<close>

fun py_str :: "pyval \<Rightarrow> string" where
  "py_str PyNone = ''None''"
| "py_str (Str s) = s"

fun truthy :: "pyval \<Rightarrow> bool" where
  "truthy PyNone = False"
| "truthy (Str s) = (s \<noteq> [])"

text \<open>\<^verbatim>\<open>a or b\<close>.\<close>

definition py_or :: "pyval \<Rightarrow> pyval \<Rightarrow> pyval" where
  "py_or a b = (if truthy a then a else b)"

text \<open>
  A \<^verbatim>\<open>dict\<close> keeps its keys in insertion order and assigning to a key that is already
  there keeps the key's place: an association list updated with \<^const>\<open>AList.update\<close>.
  An entry of the gallery is the inner dictionary (field name to value), the gallery
  the outer one (short name to entry).
\<close>

type_synonym entry = "(string \<times> pyval) list"
type_synonym gallery = "(string \<times> entry) list"

text \<open>\<^verbatim>\<open>d[k]\<close>, \<^verbatim>\<open>d.get(k)\<close>, \<^verbatim>\<open>d[k] = v\<close>, \<^verbatim>\<open>d.keys()\<close>, \<^verbatim>\<open>d.values()\<close>.\<close>

definition getitem :: "('k \<times> 'v) list \<Rightarrow> 'k \<Rightarrow> exn + 'v" where
  "getitem d k = (case map_of d k of None \<Rightarrow> Inl KeyError | Some v \<Rightarrow> Inr v)"

definition dict_get :: "entry \<Rightarrow> string \<Rightarrow> pyval" where
  "dict_get d k = (case map_of d k of None \<Rightarrow> PyNone | Some v \<Rightarrow> v)"

definition setitem :: "'k \<Rightarrow> 'v \<Rightarrow> ('k \<times> 'v) list \<Rightarrow> ('k \<times> 'v) list" where
  "setitem k v d = AList.update k v d"

definition keys :: "('k \<times> 'v) list \<Rightarrow> 'k list" where
  "keys d = map fst d"

definition dict_values :: "('k \<times> 'v) list \<Rightarrow> 'v list" where
  "dict_values d = map snd d"

section \<open>Module constants\<close>

definition link_values :: "string list" where
  "link_values = [''REST_Link'', ''AGOL_Link'', ''Metadata_Link'', ''WFS_Link'', ''WMS_Link'',
                  ''Iframe_Webmap_Link'']"

definition error_msg :: "string list" where
  "error_msg = [''Please contact your system administrator.'', ''Unauthorized'', ''Not Found'',
                ''Item does not exist or is inaccessible.'',
                ''Error occurred while processing request'', ''Error occurred'',
                ''Please contact your system administrator.'']"

definition csv_fields :: "string list" where
  "csv_fields = [''gallery_entry_name'', ''Gallery_Link'', ''REST_Link'', ''AGOL_Link'',
                 ''Metadata_Link'', ''WFS_Link'', ''WMS_Link'', ''Iframe_Webmap_Link'',
                 ''Iframe_Webmap_ID'', ''PDF_Link_Text'', ''PDF_Download_LINK'', ''PDF_File_Size'',
                 ''REST_Link_Status'', ''AGOL_Link_Status'', ''Metadata_Link_Status'',
                 ''WFS_Link_Status'', ''WMS_Link_Status'', ''Iframe_Webmap_Link_Status'',
                 ''Summary Status'']"

section \<open>Summary Reducer: \<^verbatim>\<open>dictsumvalue\<close>\<close>

text \<open>
  The body of the loop for one key: read the entry, test \<^verbatim>\<open>"Error" in values()\<close>,
  store the summary in the entry. The loop runs over \<^verbatim>\<open>gallerylinks.keys()\<close>.
\<close>

definition summary_of :: "entry \<Rightarrow> pyval" where
  "summary_of e = (if Str ''Error'' \<in> set (dict_values e) then Str ''Error'' else Str ''No problem'')"

definition set_summary :: "entry \<Rightarrow> entry" where
  "set_summary e = setitem ''Summary Status'' (summary_of e) e"

fun dictsumvalue_loop :: "string list \<Rightarrow> gallery \<Rightarrow> exn + gallery" where
  "dictsumvalue_loop [] gl = Inr gl"
| "dictsumvalue_loop (map_keys # ks) gl =
     (case getitem gl map_keys of
        Inl x \<Rightarrow> Inl x
      | Inr e \<Rightarrow> dictsumvalue_loop ks (setitem map_keys (set_summary e) gl))"

definition dictsumvalue :: "gallery \<Rightarrow> exn + gallery" where
  "dictsumvalue gallerylinks = dictsumvalue_loop (keys gallerylinks) gallerylinks"

section \<open>Report Writer: the rows handed to the CSV writer\<close>

text \<open>
  \<^verbatim>\<open>{field: gallerylinks[k].get(field) or k for field in csv_fields}\<close>, one row for each
  key \<^verbatim>\<open>k\<close> of the gallery, in the gallery's order.
\<close>

definition csv_cell :: "string \<Rightarrow> entry \<Rightarrow> string \<Rightarrow> pyval" where
  "csv_cell k e field = py_or (dict_get e field) (Str k)"

definition csv_row :: "string \<Rightarrow> entry \<Rightarrow> (string \<times> pyval) list" where
  "csv_row k e = fold (\<lambda>field row. setitem field (csv_cell k e field) row) csv_fields []"

fun csv_rows_loop :: "string list \<Rightarrow> gallery \<Rightarrow> exn + (string \<times> pyval) list list" where
  "csv_rows_loop [] gl = Inr []"
| "csv_rows_loop (k # ks) gl =
     (case getitem gl k of
        Inl x \<Rightarrow> Inl x
      | Inr e \<Rightarrow> (case csv_rows_loop ks gl of
                    Inl x \<Rightarrow> Inl x
                  | Inr rows \<Rightarrow> Inr (csv_row k e # rows)))"

definition csv_rows :: "gallery \<Rightarrow> exn + (string \<times> pyval) list list" where
  "csv_rows gallerylinks = csv_rows_loop (keys gallerylinks) gallerylinks"

section \<open>Python strings: \<^verbatim>\<open>split\<close>, indexing, \<^verbatim>\<open>int\<close>, \<^verbatim>\<open>str\<close> of an integer\<close>

text \<open>Sequencing of steps that may raise: the first exception ends the computation.\<close>

fun and_then :: "exn + 'a \<Rightarrow> ('a \<Rightarrow> exn + 'b) \<Rightarrow> exn + 'b" where
  "and_then (Inl x) f = Inl x"
| "and_then (Inr a) f = f a"

text \<open>
  \<^verbatim>\<open>s.split(sep)\<close> for a non-empty separator: the pieces between the occurrences of
  \<^verbatim>\<open>sep\<close>, found from the left and not overlapping. The script only splits at the
  constants \<^verbatim>\<open>"="\<close>, \<^verbatim>\<open>"/map/"\<close>, \<^verbatim>\<open>"&extent"\<close> and \<^verbatim>\<open>"webmap="\<close>. The second argument
  collects, reversed, the characters of the piece being read.
\<close>

function py_split_from :: "string \<Rightarrow> string \<Rightarrow> string \<Rightarrow> string list" where
  "py_split_from sep acc [] = [rev acc]"
| "py_split_from sep acc (c # cs) =
     (if sep \<noteq> [] \<and> prefix sep (c # cs)
      then rev acc # py_split_from sep [] (drop (length sep) (c # cs))
      else py_split_from sep (c # acc) cs)"
  by pat_completeness auto
termination
  by (relation "measure (\<lambda>(sep, acc, s). length s)") auto

definition py_split :: "string \<Rightarrow> string \<Rightarrow> string list" where
  "py_split sep s = py_split_from sep [] s"

text \<open>\<^verbatim>\<open>xs[i]\<close> for \<^verbatim>\<open>i \<ge> 0\<close>: IndexError out of range.\<close>

definition py_index :: "'a list \<Rightarrow> nat \<Rightarrow> exn + 'a" where
  "py_index xs i = (if i < length xs then Inr (xs ! i) else Inl IndexError)"

text \<open>
  \<^verbatim>\<open>int(s)\<close> on the decimal literals: an optional sign and one or more ASCII digits.
  Anything else raises ValueError here (Python also accepts surrounding white space and
  single underscores between digits, which no page number of the gallery has).
\<close>

definition digit_of :: "char \<Rightarrow> nat option" where
  "digit_of c = map_of [(CHR ''0'', 0), (CHR ''1'', 1), (CHR ''2'', 2), (CHR ''3'', 3), (CHR ''4'', 4),
                        (CHR ''5'', 5), (CHR ''6'', 6), (CHR ''7'', 7), (CHR ''8'', 8), (CHR ''9'', 9)] c"

fun digits_value :: "nat \<Rightarrow> string \<Rightarrow> nat option" where
  "digits_value n [] = Some n"
| "digits_value n (c # cs) =
     (case digit_of c of None \<Rightarrow> None | Some d \<Rightarrow> digits_value (10 * n + d) cs)"

fun py_int :: "string \<Rightarrow> exn + int" where
  "py_int [] = Inl ValueError"
| "py_int (c # cs) =
     (if c = CHR ''-'' \<or> c = CHR ''+''
      then (if cs = [] then Inl ValueError
            else (case digits_value 0 cs of
                    None \<Rightarrow> Inl ValueError
                  | Some n \<Rightarrow> Inr (if c = CHR ''-'' then - int n else int n)))
      else (case digits_value 0 (c # cs) of None \<Rightarrow> Inl ValueError | Some n \<Rightarrow> Inr (int n)))"

text \<open>\<^verbatim>\<open>str(n)\<close>, as the f-string \<^verbatim>\<open>f"...?page={page}"\<close> formats the page number.\<close>

definition digit_char :: "nat \<Rightarrow> char" where
  "digit_char d = ''0123456789'' ! d"

function str_of_nat :: "nat \<Rightarrow> string" where
  "str_of_nat n = (if n < 10 then [digit_char n] else str_of_nat (n div 10) @ [digit_char (n mod 10)])"
  by pat_completeness auto
termination
  by (relation "measure id") auto

definition str_of_int :: "int \<Rightarrow> string" where
  "str_of_int i = (if i < 0 then CHR ''-'' # str_of_nat (nat (- i)) else str_of_nat (nat i))"

section \<open>The browser\<close>

text \<open>
  Selenium and Chrome are outside the repository. A loaded page is what the script can
  read from it: its source text and the result of each element query the script makes,
  \<open>None\<close> where Selenium raises NoSuchElementException and \<open>Some v\<close> where the element is
  found and the attribute read gives \<open>v\<close> (a string or \<^verbatim>\<open>None\<close>).
\<close>

record pdf =
  pdf_anchor :: "(string \<times> pyval) option"
  pdf_file_size :: "string option"

record page =
  page_source :: string
  pager_last_href :: "pyval option"
  gallery_hrefs :: "pyval option list"
  services_directory_in_time :: bool
  services_directory_href :: "pyval option"
  arcgis_online_href :: "pyval option"
  metadata_href :: "pyval option"
  wfs_href :: "pyval option"
  wms_href :: "pyval option"
  iframe_src :: "pyval option"
  pdf_pane :: "pdf option"

text \<open>
  What \<^verbatim>\<open>driver.get(url)\<close> does for a URL string: it loads a page, or the driver rejects
  the argument as no URL (InvalidArgumentException, raised before any navigation), or
  the navigation fails (any other WebDriverException).
\<close>

datatype response = Loaded page | InvalidArgument | Failed

type_synonym web = "string \<Rightarrow> response"

text \<open>What the script writes to standard output.\<close>

datatype msg =
    TimedOutOnPageLoad
  | VisitingURL string
  | WorkingOnWebpage pyval
  | CheckingLinksFor string
  | ErrorCheckingRaster entry
  | PrintedGallery gallery

text \<open>
  The state of a run: the URLs \<^verbatim>\<open>driver.get\<close> has been called with, in order, the page
  the driver shows, and the output so far.
\<close>

record session =
  requests :: "string list"
  current :: page
  printed :: "msg list"

definition print :: "msg \<Rightarrow> session \<Rightarrow> session" where
  "print m s = s\<lparr>printed := printed s @ [m]\<rparr>"

definition requested :: "string \<Rightarrow> session \<Rightarrow> session" where
  "requested u s = s\<lparr>requests := requests s @ [u]\<rparr>"

text \<open>
  \<^verbatim>\<open>driver.get(URL)\<close>; an argument that is not a string is rejected by the driver. A call
  that raises leaves no session here: where the script catches the exception (the raster
  probe), the caller records the call with \<^const>\<open>requested\<close>.
\<close>

definition driver_get :: "web \<Rightarrow> pyval \<Rightarrow> session \<Rightarrow> exn + session" where
  "driver_get w URL s =
     (case URL of
        PyNone \<Rightarrow> Inl InvalidArgumentException
      | Str u \<Rightarrow>
          (case w u of
             Loaded p \<Rightarrow> Inr ((requested u s)\<lparr>current := p\<rparr>)
           | InvalidArgument \<Rightarrow> Inl InvalidArgumentException
           | Failed \<Rightarrow> Inl WebDriverException))"

text \<open>
  What happened between two states of a run: the later state extends the earlier one,
  and \<open>fetched\<close> lists the URLs requested in between.
\<close>

definition extends :: "session \<Rightarrow> session \<Rightarrow> bool" where
  "extends s s' \<longleftrightarrow> prefix (requests s) (requests s') \<and> prefix (printed s) (printed s')"

definition fetched :: "session \<Rightarrow> session \<Rightarrow> string list" where
  "fetched s s' = drop (length (requests s)) (requests s')"

text \<open>An element query: NoSuchElementException when the element is not there.\<close>

definition find_element :: "'a option \<Rightarrow> exn + 'a" where
  "find_element q = (case q of None \<Rightarrow> Inl NoSuchElementException | Some v \<Rightarrow> Inr v)"

section \<open>\<^verbatim>\<open>load_map_page\<close>, \<^verbatim>\<open>totalpages\<close>, \<^verbatim>\<open>gallery_links_visit\<close>\<close>

definition load_map_page :: "web \<Rightarrow> pyval \<Rightarrow> session \<Rightarrow> exn + session" where
  "load_map_page w URL s =
     and_then (driver_get w URL s) (\<lambda>s1.
       if services_directory_in_time (current s1) then Inr s1
       else Inr (print TimedOutOnPageLoad s1))"

definition totalpages :: "web \<Rightarrow> pyval \<Rightarrow> session \<Rightarrow> exn + string \<times> session" where
  "totalpages w URL s =
     and_then (driver_get w URL s) (\<lambda>s1.
     and_then (find_element (pager_last_href (current s1))) (\<lambda>href.
       let last_page = py_str href in
       and_then (py_index (py_split ''='' last_page) 1) (\<lambda>max_pg. Inr (max_pg, s1))))"

fun links_loop :: "pyval option list \<Rightarrow> pyval list \<Rightarrow> exn + pyval list" where
  "links_loop [] links_visited = Inr links_visited"
| "links_loop (item # linkcontainers) links_visited =
     and_then (find_element item) (\<lambda>href. links_loop linkcontainers (links_visited @ [href]))"

definition gallery_links_visit :: "web \<Rightarrow> pyval \<Rightarrow> session \<Rightarrow> exn + pyval list \<times> session" where
  "gallery_links_visit w URL s =
     and_then (driver_get w URL s) (\<lambda>s1.
     and_then (links_loop (gallery_hrefs (current s1)) []) (\<lambda>links_visited.
       Inr (links_visited, s1)))"

section \<open>Entry Scraper: \<^verbatim>\<open>galleryentries\<close>\<close>

text \<open>
  One pass of the loop body builds the dictionary of one gallery entry. The source
  creates \<^verbatim>\<open>res[shortname] = {}\<close> first and fills it through \<^verbatim>\<open>res[shortname][...]\<close>;
  here the entry is filled as a value and stored under \<^verbatim>\<open>shortname\<close>, which is the same
  dictionary whenever the body ends, and an exception that leaves the body leaves the
  function. Each \<^verbatim>\<open>try\<close> block catches NoSuchElementException only.
\<close>

definition link_field :: "string \<Rightarrow> pyval option \<Rightarrow> entry \<Rightarrow> entry" where
  "link_field name q e =
     (case find_element q of
        Inr href \<Rightarrow> setitem name href e
      | Inl x \<Rightarrow> setitem name (Str ''Error'') e)"

definition iframe_fields :: "page \<Rightarrow> entry \<Rightarrow> exn + entry" where
  "iframe_fields p e =
     (case find_element (iframe_src p) of
        Inl x \<Rightarrow> Inr (setitem ''Iframe_Webmap_ID'' (Str ''Error'')
                       (setitem ''Iframe_Webmap_Link'' (Str ''Error'') e))
      | Inr src \<Rightarrow>
          (case src of
             PyNone \<Rightarrow> Inl AttributeError
           | Str sr \<Rightarrow>
               and_then (py_index (py_split ''&extent'' sr) 0) (\<lambda>webmaplink.
                 let e1 = setitem ''Iframe_Webmap_Link'' (Str webmaplink) e in
                 and_then (py_index (py_split ''webmap='' webmaplink) 1) (\<lambda>webmap_id.
                   Inr (setitem ''Iframe_Webmap_ID'' (Str webmap_id) e1)))))"

definition pdf_error :: "entry \<Rightarrow> entry" where
  "pdf_error e =
     setitem ''PDF_File_Size'' (Str ''Error'')
       (setitem ''PDF_Download_Link'' (Str ''Error'')
         (setitem ''PDF_Link_Text'' (Str ''Error'') e))"

definition pdf_fields :: "page \<Rightarrow> entry \<Rightarrow> entry" where
  "pdf_fields p e =
     (case find_element (pdf_pane p) of
        Inl x \<Rightarrow> pdf_error e
      | Inr PDFDiv \<Rightarrow>
          (case find_element (pdf_anchor PDFDiv) of
             Inl x \<Rightarrow> pdf_error e
           | Inr (link_text, href) \<Rightarrow>
               let e1 = setitem ''PDF_Link_Text'' (Str link_text) e;
                   e2 = setitem ''PDF_Download_Link'' href e1
               in (case find_element (pdf_file_size PDFDiv) of
                     Inl x \<Rightarrow> pdf_error e2
                   | Inr file_size \<Rightarrow> setitem ''PDF_File_Size'' (Str file_size) e2)))"

definition scrape_entry :: "pyval \<Rightarrow> page \<Rightarrow> exn + entry" where
  "scrape_entry webpage p =
     (let e1 = setitem ''Gallery_Link'' webpage [];
          e2 = link_field ''REST_Link'' (services_directory_href p) e1;
          e3 = link_field ''AGOL_Link'' (arcgis_online_href p) e2;
          e4 = link_field ''Metadata_Link'' (metadata_href p) e3;
          e5 = link_field ''WFS_Link'' (wfs_href p) e4;
          e6 = link_field ''WMS_Link'' (wms_href p) e5
      in and_then (iframe_fields p e6) (\<lambda>e7. Inr (pdf_fields p e7)))"

definition shortname_of :: "pyval \<Rightarrow> exn + string" where
  "shortname_of webpage =
     (case webpage of
        PyNone \<Rightarrow> Inl AttributeError
      | Str u \<Rightarrow> py_index (py_split ''/map/'' u) 1)"

fun galleryentries_loop :: "web \<Rightarrow> pyval list \<Rightarrow> gallery \<Rightarrow> session \<Rightarrow> exn + gallery \<times> session" where
  "galleryentries_loop w [] res s = Inr (res, s)"
| "galleryentries_loop w (webpage # links_to_visit) res s =
     and_then (shortname_of webpage) (\<lambda>shortname.
     and_then (load_map_page w webpage (print (WorkingOnWebpage webpage) s)) (\<lambda>s1.
     and_then (scrape_entry webpage (current s1)) (\<lambda>e.
       galleryentries_loop w links_to_visit (setitem shortname e (setitem shortname [] res)) s1)))"

definition galleryentries :: "web \<Rightarrow> pyval list \<Rightarrow> session \<Rightarrow> exn + gallery \<times> session" where
  "galleryentries w links_to_visit s = galleryentries_loop w links_to_visit [] s"

section \<open>Link Validator: \<^verbatim>\<open>checklinks\<close>\<close>

text \<open>\<^verbatim>\<open>any(i in page_text for i in error_msg)\<close>.\<close>

definition has_error_msg :: "string \<Rightarrow> bool" where
  "has_error_msg page_text = list_ex (\<lambda>i. sublist i page_text) error_msg"

text \<open>The body of the loop over \<^verbatim>\<open>link_values\<close>, for the entry of the current map key.\<close>

definition check_field :: "web \<Rightarrow> string \<Rightarrow> entry \<Rightarrow> session \<Rightarrow> exn + entry \<times> session" where
  "check_field w id_key e s =
     and_then (getitem e id_key) (\<lambda>v.
       if v = Str ''Error'' then Inr (setitem (id_key @ ''_Status'') (Str ''Error'') e, s)
       else
         and_then (driver_get w v s) (\<lambda>s1.
           let page_text = page_source (current s1);
               valid_link = has_error_msg page_text
           in if valid_link then Inr (setitem (id_key @ ''_Status'') (Str ''Error'') e, s1)
              else Inr (setitem (id_key @ ''_Status'') (Str ''Active'') e, s1)))"

fun check_fields :: "web \<Rightarrow> string list \<Rightarrow> entry \<Rightarrow> session \<Rightarrow> exn + entry \<times> session" where
  "check_fields w [] e s = Inr (e, s)"
| "check_fields w (id_key # ids) e s =
     and_then (check_field w id_key e s) (\<lambda>(e1, s1). check_fields w ids e1 s1)"

text \<open>
  The raster probe after the loop over the fields. Its \<^verbatim>\<open>try\<close> block catches
  InvalidArgumentException only, prints the entry and sets the WFS status.
\<close>

definition raster_check :: "web \<Rightarrow> entry \<Rightarrow> session \<Rightarrow> exn + entry \<times> session" where
  "raster_check w e s =
     and_then (getitem e ''WFS_Link'') (\<lambda>wfs.
       if wfs = Str ''Error'' then
         and_then (getitem e ''REST_Link'') (\<lambda>rest.
           let url = py_str rest @ ''/0'' in
           (case driver_get w (Str url) s of
              Inr s1 \<Rightarrow>
                if sublist ''Raster Layer'' (page_source (current s1))
                then Inr (setitem ''WFS_Link_Status'' (Str ''NA-Raster'')
                            (setitem ''WFS_Link'' (Str ''NA-Raster'') e), s1)
                else Inr (e, s1)
            | Inl x \<Rightarrow>
                if x = InvalidArgumentException
                then Inr (setitem ''WFS_Link_Status'' (Str ''Error'') e,
                          print (ErrorCheckingRaster e) (requested url s))
                else Inl x))
       else Inr (e, s))"

definition check_entry :: "web \<Rightarrow> string \<Rightarrow> entry \<Rightarrow> session \<Rightarrow> exn + entry \<times> session" where
  "check_entry w map_key e s =
     and_then (check_fields w link_values e (print (CheckingLinksFor map_key) s)) (\<lambda>(e1, s1).
       raster_check w e1 s1)"

fun checklinks_loop :: "web \<Rightarrow> string list \<Rightarrow> gallery \<Rightarrow> session \<Rightarrow> exn + gallery \<times> session" where
  "checklinks_loop w [] gl s = Inr (gl, s)"
| "checklinks_loop w (map_key # ks) gl s =
     and_then (getitem gl map_key) (\<lambda>e.
     and_then (check_entry w map_key e s) (\<lambda>(e1, s1).
       checklinks_loop w ks (setitem map_key e1 gl) s1))"

definition checklinks :: "web \<Rightarrow> gallery \<Rightarrow> session \<Rightarrow> exn + gallery \<times> session" where
  "checklinks w gallerylinks s = checklinks_loop w (keys gallerylinks) gallerylinks s"

section \<open>The script: page count, link collection, scrape, validate, summarize, report\<close>

definition URL0 :: string where
  "URL0 = ''https://www.cityofsalinas.org/our-government/information-center/map-gallery''"

definition page_url :: "int \<Rightarrow> string" where
  "page_url page = URL0 @ ''?page='' @ str_of_int page"

text \<open>\<^verbatim>\<open>pages = int(totalpages(URL))\<close>.\<close>

definition page_count :: "web \<Rightarrow> session \<Rightarrow> exn + int \<times> session" where
  "page_count w s =
     and_then (totalpages w (Str URL0) s) (\<lambda>(max_pg, s1).
     and_then (py_int max_pg) (\<lambda>pages. Inr (pages, s1)))"

text \<open>The loop \<^verbatim>\<open>for page in range(1, pages + 1)\<close>, that is over \<open>[1..pages]\<close>.\<close>

fun pages_loop :: "web \<Rightarrow> int list \<Rightarrow> pyval list \<Rightarrow> session \<Rightarrow> exn + pyval list \<times> session" where
  "pages_loop w [] links_to_visit s = Inr (links_to_visit, s)"
| "pages_loop w (page # rest) links_to_visit s =
     and_then (gallery_links_visit w (Str (page_url page)) (print (VisitingURL (page_url page)) s))
       (\<lambda>(links, s1). pages_loop w rest (links_to_visit @ links) s1)"

definition collect_links :: "web \<Rightarrow> int \<Rightarrow> session \<Rightarrow> exn + pyval list \<times> session" where
  "collect_links w pages s =
     and_then (gallery_links_visit w (Str URL0) s) (\<lambda>(links, s1).
       pages_loop w [1..pages] links s1)"

definition pipeline :: "web \<Rightarrow> session \<Rightarrow> exn + gallery \<times> session" where
  "pipeline w s =
     and_then (page_count w s) (\<lambda>(pages, s1).
     and_then (collect_links w pages s1) (\<lambda>(links_to_visit, s2).
     and_then (galleryentries w links_to_visit s2) (\<lambda>(gl1, s3).
     and_then (checklinks w gl1 s3) (\<lambda>(gl2, s4).
     and_then (dictsumvalue gl2) (\<lambda>gl3. Inr (gl3, print (PrintedGallery gl2) s4))))))"

definition report :: "web \<Rightarrow> session \<Rightarrow> exn + (string \<times> pyval) list list" where
  "report w s = and_then (pipeline w s) (\<lambda>(gl, s1). csv_rows gl)"

section \<open>A small gallery, for concrete runs\<close>

definition blank_page :: page where
  "blank_page = \<lparr>page_source = [], pager_last_href = None, gallery_hrefs = [],
     services_directory_in_time = False, services_directory_href = None,
     arcgis_online_href = None, metadata_href = None, wfs_href = None, wms_href = None,
     iframe_src = None, pdf_pane = None\<rparr>"

definition start :: session where
  "start = \<lparr>requests = [], current = blank_page, printed = []\<rparr>"

text \<open>
  One index page (the last-page control points to \<^verbatim>\<open>page=0\<close>) with one entry,
  \<^verbatim>\<open>zoning\<close>: a raster service with a REST link, a web map and a PDF, and no WFS link.
\<close>

definition zoning_page :: page where
  "zoning_page = blank_page\<lparr>
     services_directory_in_time := True,
     services_directory_href := Some (Str ''https://gis.example/rest/Zoning''),
     iframe_src := Some (Str ''https://maps.example/view?webmap=abc123&extent=1,2''),
     pdf_pane := Some \<lparr>pdf_anchor = Some (''Zoning map'', Str ''https://files.example/zoning.pdf''),
                        pdf_file_size = Some ''2 MB''\<rparr>\<rparr>"

definition small_gallery :: web where
  "small_gallery u =
     (if u = URL0 then
        Loaded (blank_page\<lparr>pager_last_href := Some (Str (URL0 @ ''?page=0'')),
                           gallery_hrefs := [Some (Str ''https://www.example.org/map/zoning'')]\<rparr>)
      else if u = ''https://www.example.org/map/zoning'' then Loaded zoning_page
      else if u = ''https://gis.example/rest/Zoning'' then Loaded (blank_page\<lparr>page_source := ''Folder: /''\<rparr>)
      else if u = ''https://gis.example/rest/Zoning/0'' then
        Loaded (blank_page\<lparr>page_source := ''Layer: Zoning (ID: 0) Type: Raster Layer''\<rparr>)
      else if u = ''https://maps.example/view?webmap=abc123'' then
        Loaded (blank_page\<lparr>page_source := ''Error occurred''\<rparr>)
      else InvalidArgument)"

section \<open>Dictionary lemmas\<close>

lemma map_of_setitem: "map_of (setitem k v d) k' = (if k' = k then Some v else map_of d k')"
  by (simp add: setitem_def update_conv')

lemma key_in_keys: "map_of d k = Some v \<Longrightarrow> k \<in> set (keys d)"
  by (auto simp: keys_def dest!: map_of_SomeD intro: rev_image_eqI)

lemma in_keys_lookup: "k \<in> set (keys d) \<Longrightarrow> \<exists>v. map_of d k = Some v"
  by (cases "map_of d k") (auto simp: keys_def map_of_eq_None_iff)

lemma keys_setitem_present: "map_of d k = Some v' \<Longrightarrow> keys (setitem k v d) = keys d"
  using key_in_keys [of d k v'] by (simp add: setitem_def keys_def update_keys)

lemma distinct_keys_setitem: "distinct (keys d) \<Longrightarrow> distinct (keys (setitem k v d))"
  by (simp add: setitem_def keys_def distinct_update)

section \<open>Summary Reducer: results\<close>

lemma dictsumvalue_loop_result:
  "set ks \<subseteq> set (keys gl) \<Longrightarrow> distinct ks \<Longrightarrow>
   \<exists>gl'. dictsumvalue_loop ks gl = Inr gl' \<and> keys gl' = keys gl \<and>
     (\<forall>k e. map_of gl k = Some e \<longrightarrow>
        map_of gl' k = Some (if k \<in> set ks then set_summary e else e))"
proof (induction ks arbitrary: gl)
  case Nil
  then show ?case by simp
next
  case (Cons k ks)
  from Cons.prems have "k \<in> set (keys gl)" by simp
  then obtain e where e: "map_of gl k = Some e"
    by (auto dest: in_keys_lookup)
  define gl1 where "gl1 = setitem k (set_summary e) gl"
  have k1: "keys gl1 = keys gl"
    unfolding gl1_def using e by (rule keys_setitem_present)
  have m1: "map_of gl1 k' = (if k' = k then Some (set_summary e) else map_of gl k')" for k'
    unfolding gl1_def by (rule map_of_setitem)
  from Cons.prems k1 have "set ks \<subseteq> set (keys gl1)" and "distinct ks" by simp_all
  from Cons.IH [OF this] obtain gl' where
    r: "dictsumvalue_loop ks gl1 = Inr gl'" and kk: "keys gl' = keys gl1" and
    m: "\<And>k' e'. map_of gl1 k' = Some e' \<Longrightarrow>
          map_of gl' k' = Some (if k' \<in> set ks then set_summary e' else e')"
    by auto
  have nin: "k \<notin> set ks" using Cons.prems by simp
  have step: "dictsumvalue_loop (k # ks) gl = Inr gl'"
    using e r by (simp add: getitem_def gl1_def)
  have look: "map_of gl' k' = Some (if k' \<in> set (k # ks) then set_summary e' else e')"
    if h: "map_of gl k' = Some e'" for k' e'
  proof (cases "k' = k")
    case True
    with h e have "e' = e" by simp
    moreover have "map_of gl' k = Some (set_summary e)"
      using m [of k "set_summary e"] nin by (simp add: m1)
    ultimately show ?thesis using True by simp
  next
    case False
    with h have "map_of gl1 k' = Some e'" by (simp add: m1)
    from m [OF this] False show ?thesis by simp
  qed
  show ?case
  proof (intro exI conjI allI impI)
    show "dictsumvalue_loop (k # ks) gl = Inr gl'" by (rule step)
    show "keys gl' = keys gl" using kk k1 by simp
    show "map_of gl' k' = Some (if k' \<in> set (k # ks) then set_summary e' else e')"
      if "map_of gl k' = Some e'" for k' e'
      using that by (rule look)
  qed
qed

text \<open>
  C4. After the Summary Reducer has run, the summary status of every record is Error
  exactly when one of the values the record held is the Error sentinel, and No problem
  otherwise; a value such as the raster sentinel does not count as an error.
\<close>

theorem dictsumvalue_summary:
  assumes "distinct (keys gl)" and "map_of gl k = Some e"
  shows "\<exists>gl' e'. dictsumvalue gl = Inr gl' \<and> keys gl' = keys gl \<and> map_of gl' k = Some e' \<and>
           (\<forall>f. f \<noteq> ''Summary Status'' \<longrightarrow> map_of e' f = map_of e f) \<and>
           (map_of e' ''Summary Status'' = Some (Str ''Error'') \<longleftrightarrow> Str ''Error'' \<in> set (dict_values e)) \<and>
           (map_of e' ''Summary Status'' = Some (Str ''No problem'') \<longleftrightarrow> Str ''Error'' \<notin> set (dict_values e))"
proof -
  from dictsumvalue_loop_result [of "keys gl" gl] assms(1)
  obtain gl' where r: "dictsumvalue_loop (keys gl) gl = Inr gl'" and kk: "keys gl' = keys gl" and
    m: "\<And>k e. map_of gl k = Some e \<Longrightarrow>
          map_of gl' k = Some (if k \<in> set (keys gl) then set_summary e else e)"
    by auto
  have "k \<in> set (keys gl)" using assms(2) by (rule key_in_keys)
  with m [OF assms(2)] have l: "map_of gl' k = Some (set_summary e)" by simp
  have o: "map_of (set_summary e) f = map_of e f" if "f \<noteq> ''Summary Status''" for f
    using that by (simp add: set_summary_def map_of_setitem)
  have s: "map_of (set_summary e) ''Summary Status'' = Some (summary_of e)"
    by (simp add: set_summary_def map_of_setitem)
  have s1: "summary_of e = Str ''Error'' \<longleftrightarrow> Str ''Error'' \<in> set (dict_values e)"
    by (simp add: summary_of_def)
  have s2: "summary_of e = Str ''No problem'' \<longleftrightarrow> Str ''Error'' \<notin> set (dict_values e)"
    by (simp add: summary_of_def)
  show ?thesis
  proof (intro exI conjI allI impI)
    show "dictsumvalue gl = Inr gl'" using r by (simp add: dictsumvalue_def)
    show "keys gl' = keys gl" by (rule kk)
    show "map_of gl' k = Some (set_summary e)" by (rule l)
    show "map_of (set_summary e) f = map_of e f" if "f \<noteq> ''Summary Status''" for f
      using that by (rule o)
    show "map_of (set_summary e) ''Summary Status'' = Some (Str ''Error'') \<longleftrightarrow> Str ''Error'' \<in> set (dict_values e)"
      using s s1 by simp
    show "map_of (set_summary e) ''Summary Status'' = Some (Str ''No problem'') \<longleftrightarrow> Str ''Error'' \<notin> set (dict_values e)"
      using s s2 by simp
  qed
qed

theorem dictsumvalue_summary_witness:
  "\<exists>gl' e'. dictsumvalue [(''zoning'', [(''REST_Link_Status'', Str ''Active''), (''WFS_Link'', Str ''NA-Raster'')])] = Inr gl' \<and>
      keys gl' = [''zoning''] \<and> map_of gl' ''zoning'' = Some e' \<and>
      map_of e' ''Summary Status'' = Some (Str ''No problem'')"
proof -
  let ?e = "[(''REST_Link_Status'', Str ''Active''), (''WFS_Link'', Str ''NA-Raster'')]"
  let ?gl = "[(''zoning'', ?e)]"
  have d: "distinct (keys ?gl)" by (simp add: keys_def)
  have m: "map_of ?gl ''zoning'' = Some ?e" by simp
  have n: "Str ''Error'' \<notin> set (dict_values ?e)" by (simp add: dict_values_def)
  have "\<exists>gl' e'. dictsumvalue ?gl = Inr gl' \<and> keys gl' = keys ?gl \<and> map_of gl' ''zoning'' = Some e' \<and>
           (\<forall>f. f \<noteq> ''Summary Status'' \<longrightarrow> map_of e' f = map_of ?e f) \<and>
           (map_of e' ''Summary Status'' = Some (Str ''Error'') \<longleftrightarrow> Str ''Error'' \<in> set (dict_values ?e)) \<and>
           (map_of e' ''Summary Status'' = Some (Str ''No problem'') \<longleftrightarrow> Str ''Error'' \<notin> set (dict_values ?e))"
    by (rule dictsumvalue_summary [OF d m])
  then obtain gl' e' where
    a: "dictsumvalue ?gl = Inr gl'" and b: "keys gl' = keys ?gl" and c: "map_of gl' ''zoning'' = Some e'" and
    s: "map_of e' ''Summary Status'' = Some (Str ''No problem'') \<longleftrightarrow> Str ''Error'' \<notin> set (dict_values ?e)"
    by (elim exE conjE)
  from s n have "map_of e' ''Summary Status'' = Some (Str ''No problem'')" by (rule iffD2)
  moreover from b have "keys gl' = [''zoning'']" by (simp only: keys_def list.map fst_conv)
  ultimately show ?thesis using a c by (intro exI conjI)
qed

section \<open>Report Writer: results\<close>

lemma map_of_fold_setitem:
  "map_of (fold (\<lambda>f row. setitem f (g f) row) fs row0) f =
     (if f \<in> set fs then Some (g f) else map_of row0 f)"
  by (induction fs arbitrary: row0) (auto simp: map_of_setitem)

lemma keys_setitem_new: "k \<notin> set (keys d) \<Longrightarrow> keys (setitem k v d) = keys d @ [k]"
  by (simp add: setitem_def keys_def update_keys)

lemma keys_fold_setitem:
  "distinct fs \<Longrightarrow> set fs \<inter> set (keys row0) = {} \<Longrightarrow>
   keys (fold (\<lambda>f row. setitem f (g f) row) fs row0) = keys row0 @ fs"
proof (induction fs arbitrary: row0)
  case Nil
  then show ?case by simp
next
  case (Cons f fs)
  from Cons.prems have n: "f \<notin> set (keys row0)" by auto
  have k: "keys (setitem f (g f) row0) = keys row0 @ [f]" using n by (rule keys_setitem_new)
  from Cons.prems have "distinct fs" "set fs \<inter> set (keys (setitem f (g f) row0)) = {}"
    by (auto simp: k)
  from Cons.IH [OF this] show ?case by (simp add: k)
qed

lemma distinct_csv_fields: "distinct csv_fields"
  by (simp add: csv_fields_def)

lemma keys_csv_row: "keys (csv_row k e) = csv_fields"
  unfolding csv_row_def using keys_fold_setitem [OF distinct_csv_fields, of "[]"]
  by (simp add: keys_def)

lemma map_of_csv_row:
  "map_of (csv_row k e) field = (if field \<in> set csv_fields then Some (csv_cell k e field) else None)"
  unfolding csv_row_def by (simp add: map_of_fold_setitem)

lemma csv_rows_loop_result:
  "set ks \<subseteq> set (keys gl) \<Longrightarrow>
   \<exists>rows. csv_rows_loop ks gl = Inr rows \<and> length rows = length ks \<and>
     (\<forall>i < length ks. \<forall>e. map_of gl (ks ! i) = Some e \<longrightarrow> rows ! i = csv_row (ks ! i) e)"
proof (induction ks)
  case Nil
  then show ?case by simp
next
  case (Cons k ks)
  from Cons.prems have "k \<in> set (keys gl)" by simp
  then obtain e where e: "map_of gl k = Some e" by (auto dest: in_keys_lookup)
  from Cons.prems have "set ks \<subseteq> set (keys gl)" by simp
  from Cons.IH [OF this] obtain rows where
    r: "csv_rows_loop ks gl = Inr rows" and l: "length rows = length ks" and
    m: "\<And>i e. i < length ks \<Longrightarrow> map_of gl (ks ! i) = Some e \<Longrightarrow> rows ! i = csv_row (ks ! i) e"
    by auto
  show ?case
  proof (intro exI conjI allI impI)
    show "csv_rows_loop (k # ks) gl = Inr (csv_row k e # rows)"
      using e r by (simp add: getitem_def)
    show "length (csv_row k e # rows) = length (k # ks)" using l by simp
    show "(csv_row k e # rows) ! i = csv_row ((k # ks) ! i) e'"
      if "i < length (k # ks)" "map_of gl ((k # ks) ! i) = Some e'" for i e'
      using that e m by (cases i) auto
  qed
qed

text \<open>
  C9. For every record and every output column, the row the Report Writer hands to the CSV
  writer holds the record's value for that column when the record has one and it is
  truthy, and the record's key when the column is missing from the record or its value is
  falsy (\<^verbatim>\<open>None\<close> or the empty string).
\<close>

theorem csv_rows_cells:
  assumes "map_of gl k = Some e" and "field \<in> set csv_fields"
  shows "\<exists>rows i. csv_rows gl = Inr rows \<and> length rows = length gl \<and> i < length rows \<and>
           keys gl ! i = k \<and> keys (rows ! i) = csv_fields \<and>
           (\<forall>v. map_of e field = Some v \<and> truthy v \<longrightarrow> map_of (rows ! i) field = Some v) \<and>
           (map_of e field = None \<or> (\<exists>v. map_of e field = Some v \<and> \<not> truthy v) \<longrightarrow>
              map_of (rows ! i) field = Some (Str k))"
proof -
  from csv_rows_loop_result [of "keys gl" gl] obtain rows where
    r: "csv_rows_loop (keys gl) gl = Inr rows" and l: "length rows = length (keys gl)" and
    m: "\<And>i e. i < length (keys gl) \<Longrightarrow> map_of gl (keys gl ! i) = Some e \<Longrightarrow>
          rows ! i = csv_row (keys gl ! i) e"
    by auto
  from assms(1) have "k \<in> set (keys gl)" by (rule key_in_keys)
  then obtain i where i: "i < length (keys gl)" and ki: "keys gl ! i = k"
    by (auto simp: in_set_conv_nth)
  from m [OF i] ki assms(1) have row: "rows ! i = csv_row k e" by simp
  have cell: "map_of (csv_row k e) field = Some (csv_cell k e field)"
    using assms(2) by (simp add: map_of_csv_row)
  show ?thesis
  proof (intro exI conjI allI impI)
    show "csv_rows gl = Inr rows" using r by (simp add: csv_rows_def)
    show "length rows = length gl" using l by (simp add: keys_def)
    show "i < length rows" using i l by simp
    show "keys gl ! i = k" by (rule ki)
    show "keys (rows ! i) = csv_fields" by (simp add: row keys_csv_row)
    show "map_of (rows ! i) field = Some v" if "map_of e field = Some v \<and> truthy v" for v
      using that by (simp add: row cell csv_cell_def dict_get_def py_or_def)
    show "map_of (rows ! i) field = Some (Str k)"
      if "map_of e field = None \<or> (\<exists>v. map_of e field = Some v \<and> \<not> truthy v)"
      using that by (auto simp: row cell csv_cell_def dict_get_def py_or_def)
  qed
qed

theorem csv_rows_cells_witness:
  "\<exists>rows i. csv_rows [(''downtown-parking'', [(''REST_Link'', Str ''https://gis.example/rest/Parking'')])] = Inr rows \<and>
     i < length rows \<and> keys (rows ! i) = csv_fields \<and>
     map_of (rows ! i) ''PDF_Link_Text'' = Some (Str ''downtown-parking'')"
proof -
  let ?e = "[(''REST_Link'', Str ''https://gis.example/rest/Parking'')]"
  let ?gl = "[(''downtown-parking'', ?e)]"
  have m: "map_of ?gl ''downtown-parking'' = Some ?e" by simp
  have f: "''PDF_Link_Text'' \<in> set csv_fields" by (simp add: csv_fields_def)
  have n: "map_of ?e ''PDF_Link_Text'' = None" by simp
  from csv_rows_cells [OF m f] obtain rows i where
    a: "csv_rows ?gl = Inr rows" and b: "i < length rows" and c: "keys (rows ! i) = csv_fields" and
    d: "map_of ?e ''PDF_Link_Text'' = None \<or> (\<exists>v. map_of ?e ''PDF_Link_Text'' = Some v \<and> \<not> truthy v) \<longrightarrow>
          map_of (rows ! i) ''PDF_Link_Text'' = Some (Str ''downtown-parking'')"
    by (elim exE conjE)
  from d n have "map_of (rows ! i) ''PDF_Link_Text'' = Some (Str ''downtown-parking'')" by simp
  with a b c show ?thesis by (intro exI conjI)
qed

section \<open>Sessions\<close>

lemma and_then_Inr: "and_then m f = Inr r \<longleftrightarrow> (\<exists>a. m = Inr a \<and> f a = Inr r)"
  by (cases m) auto

lemma extends_refl: "extends s s"
  by (simp add: extends_def)

lemma extends_trans: "extends s s' \<Longrightarrow> extends s' s'' \<Longrightarrow> extends s s''"
  by (auto simp: extends_def intro: prefix_order.trans)

lemma extends_print: "extends s (print m s)"
  by (simp add: extends_def print_def)

lemma extends_requested: "extends s (requested u s)"
  by (simp add: extends_def requested_def)

lemma requests_print: "requests (print m s) = requests s"
  by (simp add: print_def)

lemma fetched_same: "fetched s s = []"
  by (simp add: fetched_def)

lemma fetched_print: "fetched s (print m s') = fetched s s'"
  by (simp add: fetched_def print_def)

lemma fetched_print_left: "fetched (print m s) s' = fetched s s'"
  by (simp add: fetched_def print_def)

lemma fetched_trans:
  "extends s s' \<Longrightarrow> extends s' s'' \<Longrightarrow> fetched s s'' = fetched s s' @ fetched s' s''"
  by (auto simp: extends_def fetched_def prefix_def)

lemma driver_get_Inr:
  "driver_get w v s = Inr s1 \<longleftrightarrow>
     (\<exists>u p. v = Str u \<and> w u = Loaded p \<and> s1 = (requested u s)\<lparr>current := p\<rparr>)"
  by (auto simp: driver_get_def split: pyval.splits response.splits)

lemma driver_get_session:
  assumes "driver_get w (Str u) s = Inr s1"
  shows "extends s s1" and "fetched s s1 = [u]" and "printed s1 = printed s"
    and "\<exists>p. w u = Loaded p \<and> current s1 = p"
  using assms by (auto simp: driver_get_Inr extends_def fetched_def requested_def)

end
